theory Spec2Isabelle
  imports Complex_Main "HOL-Library.Multiset"
begin

section \<open>Numbers\<close>

text \<open>
  The Python sources compute with floats. The embedding computes with exact reals: rounding
  and the non-finite values (inf, nan) are outside the model. Candle prices, capital,
  percentages and profits are \<^typ>\<open>real\<close>; timestamps are seconds as \<^typ>\<open>int\<close>.
\<close>

section \<open>config/core\_rules.py\<close>

definition MAX_RISK_PERCENT :: real where
  "MAX_RISK_PERCENT = 0.01"

definition MIN_POSITION_SIZE :: real where
  "MIN_POSITION_SIZE = 10"

text \<open>
  \<^verbatim>\<open>calculate_position_size(capital, risk_percent=None)\<close>: a missing risk percent is the
  hard limit; the percent is clamped with \<^verbatim>\<open>min\<close>, multiplied by the capital, and the
  product is raised to the minimum position size with \<^verbatim>\<open>max\<close>.
\<close>

definition calculate_position_size :: "real \<Rightarrow> real option \<Rightarrow> real" where
  "calculate_position_size capital risk_percent =
     (let risk_percent1 = (case risk_percent of None \<Rightarrow> MAX_RISK_PERCENT | Some r \<Rightarrow> r);
          risk_percent2 = min risk_percent1 MAX_RISK_PERCENT;
          position_size = capital * risk_percent2
      in max position_size MIN_POSITION_SIZE)"

section \<open>core/backtest\_engine.py: data\<close>

text \<open>
  A candle is one row of the data frame, with the six columns the engine reads. The frame
  handed to \<^verbatim>\<open>load_data\<close> has a list of column names and its rows; a field of a row
  whose column is absent from the frame is never read, because \<^verbatim>\<open>load_data\<close> rejects
  such a frame. Timestamps are taken as already converted by \<^verbatim>\<open>pd.to_datetime\<close>.
\<close>

record candle =
  timestamp :: int
  open_price :: real
  high :: real
  low :: real
  close :: real
  volume :: real


text \<open>
  Class \<^verbatim>\<open>Trade\<close>. The fields that start as \<^verbatim>\<open>None\<close> are options.
\<close>

record trade =
  entry_time :: int
  entry_price :: real
  position_size :: real
  direction :: string
  exit_time :: "int option"
  exit_price :: "real option"
  profit :: real
  profit_percent :: real
  duration :: "real option"
  closed :: bool

definition Trade :: "int \<Rightarrow> real \<Rightarrow> real \<Rightarrow> string \<Rightarrow> trade" where
  "Trade etime eprice psize dir =
     \<lparr>entry_time = etime, entry_price = eprice, position_size = psize, direction = dir,
      exit_time = None, exit_price = None, profit = 0, profit_percent = 0,
      duration = None, closed = False\<rparr>"

text \<open>
  \<^verbatim>\<open>Trade.close\<close>: the profit is computed for \<^verbatim>\<open>'long'\<close> and, in the else branch, for
  every other direction as a short. Both timestamps are \<^verbatim>\<open>pd.Timestamp\<close> values after
  loading, so the duration in hours is always set. The division by the entry price is
  HOL's division; no theorem below reads \<open>profit_percent\<close> at an entry price of 0.
\<close>

definition Trade_close :: "int \<Rightarrow> real \<Rightarrow> trade \<Rightarrow> trade" where
  "Trade_close etime eprice t =
     (if direction t = ''long''
      then t\<lparr>exit_time := Some etime, exit_price := Some eprice, closed := True,
             profit := (eprice - entry_price t) * position_size t,
             profit_percent := ((eprice - entry_price t) / entry_price t) * 100,
             duration := Some (real_of_int (etime - entry_time t) / 3600)\<rparr>
      else t\<lparr>exit_time := Some etime, exit_price := Some eprice, closed := True,
             profit := (entry_price t - eprice) * position_size t,
             profit_percent := ((entry_price t - eprice) / entry_price t) * 100,
             duration := Some (real_of_int (etime - entry_time t) / 3600)\<rparr>)"

text \<open>
  The messages the engine hands to its logger, in order. Only the values a message is
  formatted from are kept.
\<close>

datatype log_event =
    LogMissingColumns "string list"
  | LogLoaded nat
  | LogNoData
  | LogBacktesting string
  | LogOpened string real real
  | LogClosed real real

text \<open>
  Class \<^verbatim>\<open>BacktestEngine\<close>. The attribute \<^verbatim>\<open>data\<close> is not set by the constructor:
  \<open>None\<close> stands for the missing attribute. \<open>logged\<close> is the logger's output.
\<close>

record engine =
  initial_capital :: real
  capital :: real
  trades :: "trade list"
  equity_curve :: "real list"
  current_position :: "trade option"
  data :: "candle list option"
  logged :: "log_event list"

definition BacktestEngine :: "real \<Rightarrow> engine" where
  "BacktestEngine ic =
     \<lparr>initial_capital = ic, capital = ic, trades = [], equity_curve = [],
      current_position = None, data = None, logged = []\<rparr>"

text \<open>
  The strategy rules are a dictionary read with \<^verbatim>\<open>.get(key, default)\<close>: a record of
  options, \<open>None\<close> for a missing key. A condition is a callable on the current candle
  and the history, or a dictionary of named thresholds.
\<close>

record conditions =
  rsi_below :: "real option"
  price_above_ma :: "int option"
  rsi_above :: "real option"

datatype condition =
    Callable "candle \<Rightarrow> candle list \<Rightarrow> bool"
  | Conditions conditions

record strategy_rules =
  name :: "string option"
  entry_conditions :: "condition option"
  exit_conditions :: "condition option"
  position_size_percent :: "real option"
  stop_loss_percent :: "real option"
  take_profit_percent :: "real option"
  rule_direction :: "string option"

datatype error = AttributeError | NoDataLoaded | NoTradesExecuted

section \<open>core/backtest\_engine.py: loading\<close>



section \<open>core/backtest\_engine.py: conditions\<close>

text \<open>
  pandas yields nan where a window is too short, a series is empty or 0 is divided by 0;
  nan compares false with everything. \<open>None\<close> of \<^typ>\<open>real option\<close> is nan here.
\<close>

definition series_mean :: "real list \<Rightarrow> real option" where
  "series_mean xs = (if xs = [] then None else Some (sum_list xs / real (length xs)))"

definition diff :: "real list \<Rightarrow> real option list" where
  "diff prices = (if prices = [] then [] else None # map (\<lambda>(a, b). Some (b - a)) (zip prices (tl prices)))"

definition rolling_mean_last :: "nat \<Rightarrow> real list \<Rightarrow> real option" where
  "rolling_mean_last window xs =
     (if length xs < window then None else series_mean (drop (length xs - window) xs))"

text \<open>
  \<^verbatim>\<open>_calculate_rsi(prices, period)\<close>, called with period 14 only. The outer option is
  Python's \<^verbatim>\<open>None\<close> for too few prices, the inner one is nan. With no loss in the window
  the ratio is infinite for a positive gain, which gives 100, and nan for no gain.
\<close>

definition calculate_rsi :: "real list \<Rightarrow> nat \<Rightarrow> real option option" where
  "calculate_rsi prices period =
     (if length prices < period + 1 then None
      else let deltas = diff prices;
               gains = map (\<lambda>d. case d of Some v \<Rightarrow> (if v > 0 then v else 0) | None \<Rightarrow> 0) deltas;
               losses = map (\<lambda>d. case d of Some v \<Rightarrow> - (if v < 0 then v else 0) | None \<Rightarrow> - 0) deltas
           in Some (case (rolling_mean_last period gains, rolling_mean_last period losses) of
                      (Some gain, Some loss) \<Rightarrow>
                         (if loss = 0 then (if gain = 0 then None else Some 100)
                          else Some (100 - (100 / (1 + gain / loss))))
                    | _ \<Rightarrow> None))"

text \<open>\<^verbatim>\<open>Series.tail(n)\<close>: the last n rows, or all but the first \<open>-n\<close> for a negative n.\<close>

definition tail :: "int \<Rightarrow> 'a list \<Rightarrow> 'a list" where
  "tail n xs = (if 0 \<le> n then drop (length xs - nat n) xs else drop (nat (- n)) xs)"

definition check_entry_dict :: "conditions \<Rightarrow> candle \<Rightarrow> candle list \<Rightarrow> bool" where
  "check_entry_dict c current history =
     (if (case rsi_below c of
            None \<Rightarrow> False
          | Some bound \<Rightarrow>
              (case calculate_rsi (map close history) 14 of
                 None \<Rightarrow> True
               | Some None \<Rightarrow> False
               | Some (Some rsi) \<Rightarrow> rsi > bound))
      then False
      else if (case price_above_ma c of
                 None \<Rightarrow> False
               | Some n \<Rightarrow>
                   (case series_mean (tail n (map close history)) of
                      None \<Rightarrow> False
                    | Some ma \<Rightarrow> close current < ma))
      then False
      else True)"

definition check_entry_conditions :: "candle \<Rightarrow> candle list \<Rightarrow> strategy_rules \<Rightarrow> bool" where
  "check_entry_conditions current history rules =
     (case entry_conditions rules of
        Some (Callable f) \<Rightarrow> f current history
      | Some (Conditions c) \<Rightarrow> check_entry_dict c current history
      | None \<Rightarrow> check_entry_dict \<lparr>rsi_below = None, price_above_ma = None, rsi_above = None\<rparr>
                  current history)"

definition check_exit_dict :: "conditions \<Rightarrow> candle \<Rightarrow> candle list \<Rightarrow> bool" where
  "check_exit_dict c current history =
     (case rsi_above c of
        None \<Rightarrow> False
      | Some bound \<Rightarrow>
          (case calculate_rsi (map close history) 14 of
             Some (Some rsi) \<Rightarrow> rsi > bound
           | _ \<Rightarrow> False))"

definition check_exit_conditions :: "candle \<Rightarrow> candle list \<Rightarrow> strategy_rules \<Rightarrow> bool" where
  "check_exit_conditions current history rules =
     (case exit_conditions rules of
        Some (Callable f) \<Rightarrow> f current history
      | Some (Conditions c) \<Rightarrow> check_exit_dict c current history
      | None \<Rightarrow> check_exit_dict \<lparr>rsi_below = None, price_above_ma = None, rsi_above = None\<rparr>
                  current history)"

section \<open>core/backtest\_engine.py: positions\<close>

text \<open>
  \<^verbatim>\<open>_open_position\<close> sizes the position from the realized capital and stores it as the
  current position; it does not look at the position already stored. The division by the
  price is HOL's division; candle prices are positive in every evaluation below.
\<close>

definition open_position :: "int \<Rightarrow> real \<Rightarrow> real \<Rightarrow> string \<Rightarrow> engine \<Rightarrow> engine" where
  "open_position ts price psp dir e =
     (let psize = (capital e * psp / 100) / price
      in e\<lparr>current_position := Some (Trade ts price psize dir),
           logged := logged e @ [LogOpened dir price psize]\<rparr>)"

text \<open>
  \<^verbatim>\<open>_close_position\<close> does nothing without a current position. Otherwise it closes the
  trade, adds its profit to the capital, appends it to the trade history and clears the
  current position.
\<close>

definition close_position :: "int \<Rightarrow> real \<Rightarrow> engine \<Rightarrow> engine" where
  "close_position ts price e =
     (case current_position e of
        None \<Rightarrow> e
      | Some pos \<Rightarrow>
          (let t = Trade_close ts price pos
           in e\<lparr>capital := capital e + profit t,
                trades := trades e @ [t],
                logged := logged e @ [LogClosed price (profit t)],
                current_position := None\<rparr>))"

text \<open>
  The end of the loop body: the realized capital, plus the unrealized profit of the open
  position computed as for a long, is appended to the equity curve.
\<close>

definition update_equity :: "candle \<Rightarrow> engine \<Rightarrow> engine" where
  "update_equity current_candle e =
     (let current_equity =
            (case current_position e of
               None \<Rightarrow> capital e
             | Some pos \<Rightarrow>
                 capital e + (close current_candle - entry_price pos) * position_size pos)
      in e\<lparr>equity_curve := equity_curve e @ [current_equity]\<rparr>)"

definition dict_get :: "'a option \<Rightarrow> 'a \<Rightarrow> 'a" where
  "dict_get v dflt = (case v of None \<Rightarrow> dflt | Some x \<Rightarrow> x)"

text \<open>\<^verbatim>\<open>self.data.iloc[max(0, i-50):i]\<close>\<close>

definition prev_candles :: "candle list \<Rightarrow> nat \<Rightarrow> candle list" where
  "prev_candles d i = (let lo = (if i < 50 then 0 else i - 50) in take (i - lo) (drop lo d))"

text \<open>
  The body of the loop of \<^verbatim>\<open>execute_strategy\<close> for index \<open>i\<close>. Each \<^verbatim>\<open>continue\<close>
  after a close leaves the body before the equity curve is updated. The stop-loss and the
  take-profit are looked at under \<^verbatim>\<open>if direction == 'long'\<close> only.
\<close>

definition simulate_candle :: "strategy_rules \<Rightarrow> candle list \<Rightarrow> nat \<Rightarrow> engine \<Rightarrow> engine" where
  "simulate_candle rules d i e =
     (let psp = dict_get (position_size_percent rules) 10;
          sl = dict_get (stop_loss_percent rules) 2;
          tp = dict_get (take_profit_percent rules) 5;
          dir = dict_get (rule_direction rules) ''long'';
          current_candle = d ! i;
          history = prev_candles d i
      in case current_position e of
           Some pos \<Rightarrow>
             if dir = ''long'' \<and> low current_candle \<le> entry_price pos * (1 - sl / 100)
             then close_position (timestamp current_candle) (entry_price pos * (1 - sl / 100)) e
             else if dir = ''long'' \<and> high current_candle \<ge> entry_price pos * (1 + tp / 100)
             then close_position (timestamp current_candle) (entry_price pos * (1 + tp / 100)) e
             else if check_exit_conditions current_candle history rules
             then close_position (timestamp current_candle) (close current_candle) e
             else update_equity current_candle e
         | None \<Rightarrow>
             update_equity current_candle
               (if check_entry_conditions current_candle history rules
                then open_position (timestamp current_candle) (close current_candle) psp dir e
                else e))"

section \<open>core/backtest\_engine.py: results\<close>

text \<open>
  A division whose divisor may be 0 has no real value (numpy gives inf or nan and a
  warning, a Python float raises): it is written with \<open>fdiv\<close>, and a result field
  computed through it is an option.
\<close>

definition fdiv :: "real \<Rightarrow> real \<Rightarrow> real option" where
  "fdiv a b = (if b = 0 then None else Some (a / b))"

definition np_mean :: "real list \<Rightarrow> real" where
  "np_mean xs = sum_list xs / real (length xs)"

text \<open>
  The report. The fields \<^verbatim>\<open>max_drawdown_percent\<close>, \<^verbatim>\<open>sharpe_ratio\<close> and
  \<^verbatim>\<open>avg_trade_duration_hours\<close> are computed by numpy and pandas without raising and are
  left out.
\<close>

record results =
  total_trades :: nat
  winning_trades :: nat
  losing_trades :: nat
  win_rate :: real
  total_profit :: real
  total_return_percent :: "real option"
  r_initial_capital :: real
  final_capital :: real
  avg_win :: real
  avg_loss :: real
  profit_factor :: "real option"
  r_equity_curve :: "real list"
  r_trades :: "trade list"
  profitable :: bool

definition calculate_results :: "engine \<Rightarrow> error + results" where
  "calculate_results e =
     (if length (trades e) = 0 then Inl NoTradesExecuted
      else
        let n = length (trades e);
            winning = filter (\<lambda>t. profit t > 0) (trades e);
            losing = filter (\<lambda>t. profit t \<le> 0) (trades e);
            wr = (if n > 0 then real (length winning) / real n * 100 else 0);
            tprofit = sum_list (map profit (trades e));
            treturn = map_option (\<lambda>q. q * 100)
                        (fdiv (capital e - initial_capital e) (initial_capital e));
            aw = (if winning \<noteq> [] then np_mean (map profit winning) else 0);
            al = (if losing \<noteq> [] then np_mean (map profit losing) else 0)
        in Inr \<lparr>total_trades = n,
                winning_trades = length winning,
                losing_trades = length losing,
                win_rate = wr,
                total_profit = tprofit,
                total_return_percent = treturn,
                r_initial_capital = initial_capital e,
                final_capital = capital e,
                avg_win = aw,
                avg_loss = al,
                profit_factor = (if al \<noteq> 0 then map_option abs (fdiv aw al) else Some 0),
                r_equity_curve = equity_curve e,
                r_trades = trades e,
                profitable = (tprofit > 0)\<rparr>)"

section \<open>core/backtest\_engine.py: the run\<close>

definition reset_state :: "engine \<Rightarrow> engine" where
  "reset_state e =
     e\<lparr>capital := initial_capital e, trades := [], equity_curve := [initial_capital e],
       current_position := None\<rparr>"

text \<open>The \<^verbatim>\<open>for i in range(1, len(self.data))\<close> loop, run from the reset state.\<close>

definition run_loop :: "strategy_rules \<Rightarrow> candle list \<Rightarrow> engine \<Rightarrow> engine" where
  "run_loop rules d e = fold (simulate_candle rules d) [1..<length d] e"

text \<open>\<^verbatim>\<open>Close any open position at end\<close>, on the last candle.\<close>

definition close_at_end :: "candle list \<Rightarrow> engine \<Rightarrow> engine" where
  "close_at_end d e =
     (case current_position e of
        Some pos \<Rightarrow> close_position (timestamp (last d)) (close (last d)) e
      | None \<Rightarrow> e)"

text \<open>
  The start of a run: the strategy's name is logged (\<^verbatim>\<open>'Unknown'\<close> when missing) and
  the state is reset.
\<close>

definition start_run :: "strategy_rules \<Rightarrow> engine \<Rightarrow> engine" where
  "start_run rules e =
     reset_state (e\<lparr>logged := logged e @ [LogBacktesting (dict_get (name rules) ''Unknown'')]\<rparr>)"

text \<open>
  \<^verbatim>\<open>execute_strategy\<close> returns the report or an error, and the engine as the run leaves
  it. Reading the attribute \<^verbatim>\<open>data\<close> before any load raises; an empty frame gives the
  error dictionary \<^verbatim>\<open>No data loaded\<close>; a run without trades gives the error dictionary
  \<^verbatim>\<open>No trades executed\<close>.
\<close>

definition execute_strategy :: "strategy_rules \<Rightarrow> engine \<Rightarrow> (error + results) \<times> engine" where
  "execute_strategy rules e =
     (case data e of
        None \<Rightarrow> (Inl AttributeError, e)
      | Some d \<Rightarrow>
          if length d = 0 then (Inl NoDataLoaded, e\<lparr>logged := logged e @ [LogNoData]\<rparr>)
          else
            let e2 = run_loop rules d (start_run rules e);
                e3 = close_at_end d e2
            in (calculate_results e3, e3))"

section \<open>Properties of a run\<close>

text \<open>
  The events a run has logged: what \<open>e'\<close> holds beyond the log of \<open>e\<close>.
\<close>

definition run_events :: "engine \<Rightarrow> engine \<Rightarrow> log_event list" where
  "run_events e e' = drop (length (logged e)) (logged e')"

text \<open>
  Replaying a log from a state with (\<open>True\<close>) or without (\<open>False\<close>) an open position:
  the result is whether a position is open after the last event, and \<open>None\<close> when the log
  opens a position while one is open or closes one while none is open.
\<close>

fun position_open :: "bool \<Rightarrow> log_event list \<Rightarrow> bool option" where
  "position_open b [] = Some b"
| "position_open b (LogOpened dir price psize # es) =
     (if b then None else position_open True es)"
| "position_open b (LogClosed price pr # es) =
     (if b then position_open False es else None)"
| "position_open b (ev # es) = position_open b es"

fun is_opened :: "log_event \<Rightarrow> bool" where
  "is_opened (LogOpened dir price psize) = True"
| "is_opened ev = False"

definition count_opened :: "log_event list \<Rightarrow> nat" where
  "count_opened es = length (filter is_opened es)"


text \<open>
  The log from position \<open>n\<close> on agrees with the state: it replays to the state's open
  or absent position, and it has opened as many positions as are closed or still open.
\<close>

definition tracked :: "nat \<Rightarrow> engine \<Rightarrow> bool" where
  "tracked n e =
     (n \<le> length (logged e)
      \<and> position_open False (drop n (logged e)) = Some (current_position e \<noteq> None)
      \<and> count_opened (drop n (logged e))
          = length (trades e) + (if current_position e = None then 0 else 1))"

section \<open>Inputs of the scenarios\<close>

definition ohlc :: "int \<Rightarrow> real \<Rightarrow> real \<Rightarrow> real \<Rightarrow> real \<Rightarrow> candle" where
  "ohlc t o1 h l c =
     \<lparr>timestamp = t, open_price = o1, high = h, low = l, close = c, volume = 1\<rparr>"

definition always_true :: "candle \<Rightarrow> candle list \<Rightarrow> bool" where
  "always_true current history = True"

text \<open>
  The empty rules dictionary: every \<^verbatim>\<open>.get\<close> takes its default, and the conditions are
  the empty dictionary, as in the rules \<^verbatim>\<open>convert_to_executable\<close> builds for a strategy
  without indicators.
\<close>

definition no_rules :: strategy_rules where
  "no_rules =
     \<lparr>name = None, entry_conditions = None, exit_conditions = None,
      position_size_percent = None, stop_loss_percent = None, take_profit_percent = None,
      rule_direction = None\<rparr>"

definition loaded :: "candle list \<Rightarrow> engine" where
  "loaded d = (BacktestEngine 10000)\<lparr>data := Some d\<rparr>"


text \<open>
  A short strategy with a stop-loss of 1 percent, on four candles: the position opened at
  100 on candle 1 meets a high of 110 on candle 2.
\<close>

definition short_rules :: strategy_rules where
  "short_rules = no_rules\<lparr>stop_loss_percent := Some 1, rule_direction := Some ''short''\<rparr>"

definition short_candles :: "candle list" where
  "short_candles =
     [ohlc 0 100 100 100 100, ohlc 1 100 100 100 100, ohlc 2 100 110 100 108,
      ohlc 3 108 120 108 120]"

text \<open>
  Four candles on which the default long strategy opens at 100 on candle 1, is stopped
  out at 98 on candle 2 and opens again at 95 on candle 3.
\<close>

definition stopped_candles :: "candle list" where
  "stopped_candles =
     [ohlc 0 100 100 100 100, ohlc 1 100 100 100 100, ohlc 2 100 100 90 95,
      ohlc 3 95 95 95 95]"

text \<open>The scenario of the specification: two candles, long, stop 1 percent, target 2.\<close>

definition scenario_rules :: strategy_rules where
  "scenario_rules =
     no_rules\<lparr>entry_conditions := Some (Callable always_true), stop_loss_percent := Some 1,
              take_profit_percent := Some 2, rule_direction := Some ''long''\<rparr>"

definition scenario_candles :: "candle list" where
  "scenario_candles = [ohlc 0 100 105 95 100, ohlc 1 100 102 90 92]"

text \<open>An engine holding one winning and one losing trade, and one holding a winner only.\<close>

definition won_lost :: engine where
  "won_lost =
     (BacktestEngine 10000)\<lparr>capital := 10050,
        trades := [Trade_close 2 110 (Trade 1 100 10 ''long''),
                   Trade_close 4 95 (Trade 3 100 10 ''long'')]\<rparr>"

definition won_only :: engine where
  "won_only =
     (BacktestEngine 10000)\<lparr>capital := 10100,
        trades := [Trade_close 2 110 (Trade 1 100 10 ''long'')]\<rparr>"

text \<open>An engine in the middle of a run, holding a long position opened at 100.\<close>

definition holding :: engine where
  "holding = (loaded stopped_candles)\<lparr>current_position := Some (Trade 1 100 10 ''long'')\<rparr>"

section \<open>Invariants of the loop\<close>

lemma position_open_append:
  "position_open b (xs @ ys) =
     (case position_open b xs of None \<Rightarrow> None | Some b' \<Rightarrow> position_open b' ys)"
  by (induction b xs rule: position_open.induct) auto








lemma initial_capital_close_position [simp]:
  "initial_capital (close_position ts price e) = initial_capital e"
  by (simp add: close_position_def Let_def split: option.splits)

lemma initial_capital_simulate_candle [simp]:
  "initial_capital (simulate_candle rules d i e) = initial_capital e"
  by (simp add: simulate_candle_def Let_def open_position_def update_equity_def
        split: option.splits)

lemma initial_capital_fold [simp]:
  "initial_capital (fold (simulate_candle rules d) ks e) = initial_capital e"
  by (induction ks arbitrary: e) simp_all

lemma initial_capital_start_run [simp]: "initial_capital (start_run rules e) = initial_capital e"
  by (simp add: start_run_def reset_state_def)

lemma initial_capital_close_at_end [simp]:
  "initial_capital (close_at_end d e) = initial_capital e"
  by (simp add: close_at_end_def split: option.splits)

lemma tracked_close_position: "tracked n e \<Longrightarrow> tracked n (close_position ts price e)"
  by (cases "current_position e")
     (simp_all add: tracked_def close_position_def Let_def position_open_append count_opened_def)

lemma tracked_open_position:
  "tracked n e \<Longrightarrow> current_position e = None \<Longrightarrow> tracked n (open_position ts price psp dir e)"
  by (simp add: tracked_def open_position_def Let_def position_open_append count_opened_def)

lemma tracked_update_equity: "tracked n e \<Longrightarrow> tracked n (update_equity c e)"
  by (simp add: tracked_def update_equity_def Let_def)

lemma tracked_simulate_candle: "tracked n e \<Longrightarrow> tracked n (simulate_candle rules d i e)"
  by (cases "current_position e")
     (simp_all add: simulate_candle_def Let_def tracked_close_position tracked_open_position
        tracked_update_equity)

lemma tracked_fold: "tracked n e \<Longrightarrow> tracked n (fold (simulate_candle rules d) ks e)"
  by (induction ks arbitrary: e) (simp_all add: tracked_simulate_candle)

lemma tracked_close_at_end: "tracked n e \<Longrightarrow> tracked n (close_at_end d e)"
  by (simp add: close_at_end_def tracked_close_position split: option.splits)

lemma current_position_close_at_end: "current_position (close_at_end d e) = None"
  by (simp add: close_at_end_def close_position_def Let_def split: option.splits)

lemma tracked_start_run: "tracked (length (logged e)) (start_run rules e)"
  by (simp add: tracked_def start_run_def reset_state_def count_opened_def)

lemma tracked_after_run:
  "tracked (length (logged e)) (close_at_end d (run_loop rules d (start_run rules e)))"
  by (simp add: run_loop_def tracked_close_at_end tracked_fold tracked_start_run)

lemma execute_strategy_run:
  "data e = Some d \<Longrightarrow> d \<noteq> [] \<Longrightarrow>
     execute_strategy rules e =
       (calculate_results (close_at_end d (run_loop rules d (start_run rules e))),
        close_at_end d (run_loop rules d (start_run rules e)))"
  by (simp add: execute_strategy_def Let_def)

lemma tracked_loop:
  "tracked (length (logged e)) (fold (simulate_candle rules d) ks (start_run rules e))"
  by (simp add: tracked_fold tracked_start_run)

lemma position_open_run_events:
  "position_open False (run_events e (snd (execute_strategy rules e))) = Some False"
proof (cases "data e")
  case None
  then show ?thesis by (simp add: execute_strategy_def run_events_def)
next
  case (Some d)
  show ?thesis
  proof (cases "d = []")
    case True
    with Some show ?thesis by (simp add: execute_strategy_def run_events_def)
  next
    case False
    let ?e3 = "close_at_end d (run_loop rules d (start_run rules e))"
    have "tracked (length (logged e)) ?e3" by (rule tracked_after_run)
    moreover have "current_position ?e3 = None" by (rule current_position_close_at_end)
    ultimately show ?thesis
      using Some False by (simp add: execute_strategy_run run_events_def tracked_def)
  qed
qed


lemma check_entry_conditions_update [simp]:
  "check_entry_conditions c h (rules\<lparr>rule_direction := dv\<rparr>) = check_entry_conditions c h rules"
  "check_entry_conditions c h (rules\<lparr>position_size_percent := rv\<rparr>)
     = check_entry_conditions c h rules"
  "check_entry_conditions c h (rules\<lparr>stop_loss_percent := rv\<rparr>) = check_entry_conditions c h rules"
  "check_entry_conditions c h (rules\<lparr>take_profit_percent := rv\<rparr>) = check_entry_conditions c h rules"
  by (simp_all add: check_entry_conditions_def)

lemma check_exit_conditions_update [simp]:
  "check_exit_conditions c h (rules\<lparr>rule_direction := dv\<rparr>) = check_exit_conditions c h rules"
  "check_exit_conditions c h (rules\<lparr>position_size_percent := rv\<rparr>)
     = check_exit_conditions c h rules"
  "check_exit_conditions c h (rules\<lparr>stop_loss_percent := rv\<rparr>) = check_exit_conditions c h rules"
  "check_exit_conditions c h (rules\<lparr>take_profit_percent := rv\<rparr>) = check_exit_conditions c h rules"
  "check_exit_conditions c h (rules\<lparr>entry_conditions := cv\<rparr>) = check_exit_conditions c h rules"
  by (simp_all add: check_exit_conditions_def)

lemma simulate_candle_defaults:
  "simulate_candle (rules\<lparr>rule_direction := None\<rparr>) d
     = simulate_candle (rules\<lparr>rule_direction := Some ''long''\<rparr>) d"
  "simulate_candle (rules\<lparr>position_size_percent := None\<rparr>) d
     = simulate_candle (rules\<lparr>position_size_percent := Some 10\<rparr>) d"
  "simulate_candle (rules\<lparr>stop_loss_percent := None\<rparr>) d
     = simulate_candle (rules\<lparr>stop_loss_percent := Some 2\<rparr>) d"
  "simulate_candle (rules\<lparr>take_profit_percent := None\<rparr>) d
     = simulate_candle (rules\<lparr>take_profit_percent := Some 5\<rparr>) d"
  by (intro ext, simp add: simulate_candle_def dict_get_def Let_def)+

lemma run_loop_defaults:
  "run_loop (rules\<lparr>rule_direction := None\<rparr>) = run_loop (rules\<lparr>rule_direction := Some ''long''\<rparr>)"
  "run_loop (rules\<lparr>position_size_percent := None\<rparr>)
     = run_loop (rules\<lparr>position_size_percent := Some 10\<rparr>)"
  "run_loop (rules\<lparr>stop_loss_percent := None\<rparr>) = run_loop (rules\<lparr>stop_loss_percent := Some 2\<rparr>)"
  "run_loop (rules\<lparr>take_profit_percent := None\<rparr>)
     = run_loop (rules\<lparr>take_profit_percent := Some 5\<rparr>)"
  by (intro ext, simp add: run_loop_def simulate_candle_defaults)+

lemma start_run_defaults:
  "start_run (rules\<lparr>rule_direction := dv\<rparr>) = start_run rules"
  "start_run (rules\<lparr>position_size_percent := rv\<rparr>) = start_run rules"
  "start_run (rules\<lparr>stop_loss_percent := rv\<rparr>) = start_run rules"
  "start_run (rules\<lparr>take_profit_percent := rv\<rparr>) = start_run rules"
  by (intro ext, simp add: start_run_def)+

lemma calculate_results_error:
  "calculate_results e \<noteq> Inl AttributeError \<and> calculate_results e \<noteq> Inl NoDataLoaded"
  by (simp add: calculate_results_def Let_def)

lemmas scenario_defs =
  execute_strategy_def loaded_def BacktestEngine_def no_rules_def ohlc_def run_loop_def
  start_run_def reset_state_def simulate_candle_def dict_get_def Let_def
  check_entry_conditions_def check_entry_dict_def check_exit_conditions_def check_exit_dict_def
  always_true_def open_position_def update_equity_def close_at_end_def close_position_def
  Trade_close_def Trade_def prev_candles_def calculate_results_def fdiv_def np_mean_def upt_rec
  short_rules_def short_candles_def stopped_candles_def scenario_rules_def scenario_candles_def
  won_lost_def won_only_def holding_def

section \<open>Position sizing above the hard limit\<close>

text \<open>
  C1, the claim as stated fails: with capital 100 and a requested risk of 5 percent (0.05,
  above the hard limit 0.01) the function returns the minimum position size 10, which is
  neither equal to capital times the hard limit (1) nor at most that product.
\<close>

theorem calculate_position_size_floor_counterexample:
  "0 < (100::real) \<and> MAX_RISK_PERCENT < 0.05
   \<and> calculate_position_size 100 (Some 0.05) = 10
   \<and> calculate_position_size 100 (Some 0.05) \<noteq> 100 * MAX_RISK_PERCENT
   \<and> \<not> calculate_position_size 100 (Some 0.05) \<le> 100 * MAX_RISK_PERCENT"
  by (simp add: calculate_position_size_def MAX_RISK_PERCENT_def MIN_POSITION_SIZE_def)

text \<open>
  C1, amended: for every capital above 0 and every requested risk percent strictly above
  the hard limit, the function returns the larger of capital times the hard limit and the
  minimum position size; it is exactly capital times the hard limit when that product
  reaches the minimum position size, and the minimum position size otherwise.
\<close>

theorem calculate_position_size_clamped:
  assumes "0 < (c::real)" and "MAX_RISK_PERCENT < r"
  shows "calculate_position_size c (Some r)
           = max (c * MAX_RISK_PERCENT) MIN_POSITION_SIZE
         \<and> (MIN_POSITION_SIZE \<le> c * MAX_RISK_PERCENT \<longrightarrow>
              calculate_position_size c (Some r) = c * MAX_RISK_PERCENT)
         \<and> (c * MAX_RISK_PERCENT < MIN_POSITION_SIZE \<longrightarrow>
              calculate_position_size c (Some r) = MIN_POSITION_SIZE)"
  using assms by (simp add: calculate_position_size_def Let_def min_def max_def)

theorem calculate_position_size_clamped_witness:
  "0 < (5000::real) \<and> MAX_RISK_PERCENT < 0.05
   \<and> MIN_POSITION_SIZE \<le> 5000 * MAX_RISK_PERCENT
   \<and> calculate_position_size 5000 (Some 0.05) = 50"
proof -
  have c: "0 < (5000::real)" by simp
  have r: "MAX_RISK_PERCENT < 0.05" by (simp add: MAX_RISK_PERCENT_def)
  have m: "MIN_POSITION_SIZE \<le> 5000 * MAX_RISK_PERCENT"
    by (simp add: MAX_RISK_PERCENT_def MIN_POSITION_SIZE_def)
  from calculate_position_size_clamped [OF c r] m
  have "calculate_position_size 5000 (Some 0.05) = 5000 * MAX_RISK_PERCENT" by blast
  with c r m show ?thesis by (simp add: MAX_RISK_PERCENT_def)
qed


section \<open>Loading a series that is out of order\<close>




section \<open>The stop-loss of a short position\<close>

text \<open>
  C3, the code at the failing input: a short position is opened at 100 on candle 1 with a
  stop-loss of 1 percent, so its stop level is 101. Candle 2 has a high of 110, yet the
  position is still open after candle 2, and it is closed only at the end of the series,
  on candle 3, at that candle's close of 120.
\<close>

theorem short_stop_loss_skipped:
  "map entry_time (trades (snd (execute_strategy short_rules (loaded short_candles)))) = [1]
   \<and> map entry_price (trades (snd (execute_strategy short_rules (loaded short_candles)))) = [100]
   \<and> high (short_candles ! 2) \<ge> 100 * (1 + 1 / 100)
   \<and> current_position (fold (simulate_candle short_rules short_candles) [1..<3]
        (start_run short_rules (loaded short_candles)))
       = Some (Trade 1 100 10 ''short'')
   \<and> map exit_time (trades (snd (execute_strategy short_rules (loaded short_candles)))) = [Some 3]
   \<and> map exit_price (trades (snd (execute_strategy short_rules (loaded short_candles)))) = [Some 120]"
  by (simp add: scenario_defs)

section \<open>The equity curve\<close>

text \<open>
  C4, the code at the failing input: on four candles the equity curve starts with the
  initial capital and gets a snapshot at candle 1; at candle 2 the position is stopped out
  and no snapshot is appended; at the end the curve has 3 entries for 3 simulated candles
  and the initial one.
\<close>

theorem equity_curve_skips_closing_candle:
  "length stopped_candles = 4
   \<and> equity_curve (fold (simulate_candle no_rules stopped_candles) [1..<2]
        (start_run no_rules (loaded stopped_candles))) = [10000, 10000]
   \<and> map exit_time (trades (fold (simulate_candle no_rules stopped_candles) [1..<3]
        (start_run no_rules (loaded stopped_candles)))) = [Some 2]
   \<and> equity_curve (fold (simulate_candle no_rules stopped_candles) [1..<3]
        (start_run no_rules (loaded stopped_candles))) = [10000, 10000]
   \<and> length (equity_curve (snd (execute_strategy no_rules (loaded stopped_candles)))) = 3"
  by (simp add: scenario_defs)

section \<open>Rules with missing fields\<close>

text \<open>
  C5, the claim as stated fails: rules without a direction (and without any other key) do
  not give an error; the run simulates the candles and makes two trades, both long.
\<close>

theorem missing_direction_runs_counterexample:
  "rule_direction no_rules = None
   \<and> isl (fst (execute_strategy no_rules (loaded stopped_candles))) = False
   \<and> map direction (trades (snd (execute_strategy no_rules (loaded stopped_candles))))
       = [''long'', ''long'']
   \<and> length (equity_curve (snd (execute_strategy no_rules (loaded stopped_candles)))) = 3"
  by (simp add: scenario_defs)

text \<open>
  C5, amended: rules that lack the direction, the position size percent, the stop-loss
  percent or the take-profit percent are run exactly as rules that give the default for
  the missing field: long, 10, 2 and 5. The errors raised before simulation depend on the
  loaded data alone: the missing data attribute and the empty series.
\<close>

theorem missing_rule_fields_default:
  "execute_strategy (rules\<lparr>rule_direction := None\<rparr>) e
     = execute_strategy (rules\<lparr>rule_direction := Some ''long''\<rparr>) e
   \<and> execute_strategy (rules\<lparr>position_size_percent := None\<rparr>) e
     = execute_strategy (rules\<lparr>position_size_percent := Some 10\<rparr>) e
   \<and> execute_strategy (rules\<lparr>stop_loss_percent := None\<rparr>) e
     = execute_strategy (rules\<lparr>stop_loss_percent := Some 2\<rparr>) e
   \<and> execute_strategy (rules\<lparr>take_profit_percent := None\<rparr>) e
     = execute_strategy (rules\<lparr>take_profit_percent := Some 5\<rparr>) e
   \<and> (fst (execute_strategy rules e) = Inl AttributeError) = (data e = None)
   \<and> (fst (execute_strategy rules e) = Inl NoDataLoaded) = (data e = Some [])"
proof -
  have errs: "(fst (execute_strategy rules e) = Inl AttributeError) = (data e = None)"
    "(fst (execute_strategy rules e) = Inl NoDataLoaded) = (data e = Some [])"
    using calculate_results_error
    by (auto simp: execute_strategy_def Let_def split: option.splits)
  have "execute_strategy (rules\<lparr>rule_direction := None\<rparr>) e
          = execute_strategy (rules\<lparr>rule_direction := Some ''long''\<rparr>) e"
    unfolding execute_strategy_def run_loop_defaults start_run_defaults ..
  moreover have "execute_strategy (rules\<lparr>position_size_percent := None\<rparr>) e
          = execute_strategy (rules\<lparr>position_size_percent := Some 10\<rparr>) e"
    unfolding execute_strategy_def run_loop_defaults start_run_defaults ..
  moreover have "execute_strategy (rules\<lparr>stop_loss_percent := None\<rparr>) e
          = execute_strategy (rules\<lparr>stop_loss_percent := Some 2\<rparr>) e"
    unfolding execute_strategy_def run_loop_defaults start_run_defaults ..
  moreover have "execute_strategy (rules\<lparr>take_profit_percent := None\<rparr>) e
          = execute_strategy (rules\<lparr>take_profit_percent := Some 5\<rparr>) e"
    unfolding execute_strategy_def run_loop_defaults start_run_defaults ..
  ultimately show ?thesis using errs by simp
qed

section \<open>One position at a time\<close>

text \<open>
  C6: while a position is open, a step of the loop does not evaluate the entry condition
  (its result is the same under any other entry condition), keeps that position or closes
  it, and opens none. After every number of steps of a run the log of the run replays
  without an open on an open position, to the state the engine is in; so does the log of
  the whole run, which ends with no position open.
\<close>

theorem one_position_at_a_time:
  "(current_position e = Some pos \<and> i < length d \<longrightarrow>
      simulate_candle (rules\<lparr>entry_conditions := cond\<rparr>) d i e = simulate_candle rules d i e
      \<and> (current_position (simulate_candle rules d i e) = Some pos
           \<or> current_position (simulate_candle rules d i e) = None)
      \<and> count_opened (logged (simulate_candle rules d i e)) = count_opened (logged e))
   \<and> (k \<le> length d \<longrightarrow>
        position_open False
          (run_events e (fold (simulate_candle rules d) [1..<k] (start_run rules e)))
        = Some (current_position (fold (simulate_candle rules d) [1..<k] (start_run rules e))
                  \<noteq> None))
   \<and> position_open False (run_events e (snd (execute_strategy rules e))) = Some False"
proof -
  have same: "simulate_candle (rules\<lparr>entry_conditions := cond\<rparr>) d i e = simulate_candle rules d i e"
    if "current_position e = Some pos"
    using that by (simp add: simulate_candle_def Let_def)
  have kept: "current_position (simulate_candle rules d i e) = Some pos
           \<or> current_position (simulate_candle rules d i e) = None"
    if "current_position e = Some pos"
    using that by (simp add: simulate_candle_def Let_def close_position_def update_equity_def)
  have quiet: "count_opened (logged (simulate_candle rules d i e)) = count_opened (logged e)"
    if "current_position e = Some pos"
    using that
    by (simp add: simulate_candle_def Let_def close_position_def update_equity_def
          count_opened_def)
  have steps: "position_open False
          (run_events e (fold (simulate_candle rules d) [1..<k] (start_run rules e)))
        = Some (current_position (fold (simulate_candle rules d) [1..<k] (start_run rules e))
                  \<noteq> None)"
    using tracked_loop [of e rules d "[1..<k]"] by (simp add: tracked_def run_events_def)
  show ?thesis
    using same kept quiet steps by (simp add: position_open_run_events)
qed

text \<open>
  C6, witness: an engine holding a long position opened at 100, at candle 2 of the
  series, whose low breaches the stop: the always-true entry condition changes nothing,
  the position is closed and none is opened; and the run over the series after 3 steps.
\<close>

theorem one_position_at_a_time_witness:
  "current_position holding = Some (Trade 1 100 10 ''long'') \<and> 2 < length stopped_candles
   \<and> simulate_candle (no_rules\<lparr>entry_conditions := Some (Callable always_true)\<rparr>)
        stopped_candles 2 holding = simulate_candle no_rules stopped_candles 2 holding
   \<and> current_position (simulate_candle no_rules stopped_candles 2 holding) = None
   \<and> count_opened (logged (simulate_candle no_rules stopped_candles 2 holding))
       = count_opened (logged holding)
   \<and> 3 \<le> length stopped_candles
   \<and> position_open False
        (run_events (loaded stopped_candles)
           (fold (simulate_candle no_rules stopped_candles) [1..<3]
              (start_run no_rules (loaded stopped_candles))))
       = Some False"
  using one_position_at_a_time [where e = holding and pos = "Trade 1 100 10 ''long''"
          and i = 2 and d = stopped_candles and rules = no_rules
          and cond = "Some (Callable always_true)" and k = 0]
        one_position_at_a_time [where e = "loaded stopped_candles"
          and pos = "Trade 1 100 10 ''long''" and i = 2 and d = stopped_candles
          and rules = no_rules and cond = None and k = 3]
  by (simp add: scenario_defs)

section \<open>The end of a run\<close>

text \<open>
  C7: after a run on a loaded, non-empty series no position is open, and the trade
  history has as many trades as the run has opened positions. A position still open after
  the loop is closed on the last candle at its close price and appended to the history;
  with no position open after the loop the history is left as it is.
\<close>

theorem open_position_closed_at_end:
  assumes "data e = Some d" and "d \<noteq> []"
  shows "current_position (snd (execute_strategy rules e)) = None
     \<and> length (trades (snd (execute_strategy rules e)))
         = count_opened (run_events e (snd (execute_strategy rules e)))
     \<and> (current_position (run_loop rules d (start_run rules e)) = Some pos \<longrightarrow>
          trades (snd (execute_strategy rules e))
            = trades (run_loop rules d (start_run rules e))
              @ [Trade_close (timestamp (last d)) (close (last d)) pos]
          \<and> exit_price (last (trades (snd (execute_strategy rules e)))) = Some (close (last d)))
     \<and> (current_position (run_loop rules d (start_run rules e)) = None \<longrightarrow>
          trades (snd (execute_strategy rules e)) = trades (run_loop rules d (start_run rules e)))"
proof -
  let ?e2 = "run_loop rules d (start_run rules e)"
  let ?e3 = "close_at_end d ?e2"
  have run: "snd (execute_strategy rules e) = ?e3"
    using assms by (simp add: execute_strategy_run)
  have tr: "tracked (length (logged e)) ?e3" by (rule tracked_after_run)
  have no: "current_position ?e3 = None" by (rule current_position_close_at_end)
  have cnt: "length (trades ?e3) = count_opened (run_events e ?e3)"
    using tr no by (simp add: tracked_def run_events_def)
  have forced: "trades ?e3 = trades ?e2 @ [Trade_close (timestamp (last d)) (close (last d)) pos]
      \<and> exit_price (last (trades ?e3)) = Some (close (last d))"
    if "current_position ?e2 = Some pos"
    using that by (simp add: close_at_end_def close_position_def Let_def Trade_close_def)
  have kept: "trades ?e3 = trades ?e2" if "current_position ?e2 = None"
    using that by (simp add: close_at_end_def)
  show ?thesis
    unfolding run using no cnt forced kept by blast
qed

text \<open>
  C7, witness: on the four candles the second position, opened at 95 on candle 3, is
  still open after the loop and is closed at 95; on the first three of them the only
  position is stopped out on the last candle, nothing is open after the loop and the
  history keeps its one trade.
\<close>

theorem open_position_closed_at_end_witness:
  "data (loaded stopped_candles) = Some stopped_candles \<and> stopped_candles \<noteq> []
   \<and> current_position (run_loop no_rules stopped_candles (start_run no_rules (loaded stopped_candles)))
       = Some (Trade 3 95 (998 / 95) ''long'')
   \<and> current_position (snd (execute_strategy no_rules (loaded stopped_candles))) = None
   \<and> count_opened (run_events (loaded stopped_candles)
        (snd (execute_strategy no_rules (loaded stopped_candles)))) = 2
   \<and> length (trades (snd (execute_strategy no_rules (loaded stopped_candles)))) = 2
   \<and> exit_price (last (trades (snd (execute_strategy no_rules (loaded stopped_candles)))))
       = Some 95
   \<and> data (loaded (take 3 stopped_candles)) = Some (take 3 stopped_candles)
   \<and> take 3 stopped_candles \<noteq> []
   \<and> current_position (run_loop no_rules (take 3 stopped_candles)
        (start_run no_rules (loaded (take 3 stopped_candles)))) = None
   \<and> map exit_price (trades (snd (execute_strategy no_rules (loaded (take 3 stopped_candles)))))
       = [Some 98]"
  using open_position_closed_at_end [where e = "loaded stopped_candles"
          and d = stopped_candles and rules = no_rules
          and pos = "Trade 3 95 (998 / 95) ''long''"]
        open_position_closed_at_end [where e = "loaded (take 3 stopped_candles)"
          and d = "take 3 stopped_candles" and rules = no_rules
          and pos = "Trade 3 95 (998 / 95) ''long''"]
  by (simp add: scenario_defs run_events_def count_opened_def)

section \<open>The scenario of the specification\<close>

text \<open>
  C8, the claim as stated fails: on the two-candle series the loop starts at index 1, so
  the first candle is never looked at for an entry. The position is opened on the second
  candle at its close of 92, not at 100, and is closed at the end of the series at 92 with
  a profit of 0, not at 99 with a loss.
\<close>

theorem scenario_two_candles_counterexample:
  "map entry_time (trades (snd (execute_strategy scenario_rules (loaded scenario_candles)))) = [1]
   \<and> map entry_price (trades (snd (execute_strategy scenario_rules (loaded scenario_candles))))
       = [92]
   \<and> map exit_price (trades (snd (execute_strategy scenario_rules (loaded scenario_candles))))
       = [Some 92]
   \<and> map profit (trades (snd (execute_strategy scenario_rules (loaded scenario_candles)))) = [0]"
  by (simp add: scenario_defs)

text \<open>
  C8, amended: on the two-candle series, with the same rules and an entry condition that
  is always true, the engine opens the long position on the second candle at its close of
  92 and closes it at the end of the series at 92 with a profit of 0. When one earlier
  candle precedes the two, so that both are simulated, the engine opens at 100 on the
  first of the two, and on the second the low of 90 breaches the stop level of 99: the
  position is closed at 99 with a profit of -10.
\<close>

theorem scenario_stop_loss:
  "map entry_price (trades (snd (execute_strategy scenario_rules (loaded scenario_candles))))
     = [92]
   \<and> map exit_price (trades (snd (execute_strategy scenario_rules (loaded scenario_candles))))
       = [Some 92]
   \<and> map profit (trades (snd (execute_strategy scenario_rules (loaded scenario_candles)))) = [0]
   \<and> map entry_time (trades (snd (execute_strategy scenario_rules
        (loaded (ohlc (- 1) 100 100 100 100 # scenario_candles))))) = [0]
   \<and> map entry_price (trades (snd (execute_strategy scenario_rules
        (loaded (ohlc (- 1) 100 100 100 100 # scenario_candles))))) = [100]
   \<and> map exit_time (trades (snd (execute_strategy scenario_rules
        (loaded (ohlc (- 1) 100 100 100 100 # scenario_candles))))) = [Some 1]
   \<and> map exit_price (trades (snd (execute_strategy scenario_rules
        (loaded (ohlc (- 1) 100 100 100 100 # scenario_candles))))) = [Some 99]
   \<and> map profit (trades (snd (execute_strategy scenario_rules
        (loaded (ohlc (- 1) 100 100 100 100 # scenario_candles))))) = [- 10]"
  by (simp add: scenario_defs)

section \<open>The profit factor\<close>



section \<open>Capital and profits\<close>



end
